theory Spec2Isabelle
  imports Complex_Main
begin

section \<open>JavaScript numbers and array helpers\<close>

text \<open>
  The component computes with JavaScript numbers. Finite numbers are modelled as exact
  rationals: the rounding of floating-point operations is not modelled, and the inputs
  (times, timestamps, scores) are taken to be finite. The three non-finite results a
  division can produce are kept as values of their own, because \<open>0 / 0\<close> does occur in
  the component and comparisons with \<open>NaN\<close> are false.
\<close>

datatype jsnum = NaN | PInf | NInf | Fin rat

text \<open>\<open>x / y\<close> on finite operands; a zero divisor is the \<open>+0\<close> of an array length.\<close>

definition js_div :: "rat \<Rightarrow> rat \<Rightarrow> jsnum" where
  "js_div x y =
     (if y = 0 then (if x = 0 then NaN else if 0 < x then PInf else NInf)
      else Fin (x / y))"

text \<open>\<open>v * c\<close> for a finite constant \<open>c\<close>.\<close>

fun js_times :: "jsnum \<Rightarrow> rat \<Rightarrow> jsnum" where
  "js_times NaN c = NaN"
| "js_times PInf c = (if c = 0 then NaN else if 0 < c then PInf else NInf)"
| "js_times NInf c = (if c = 0 then NaN else if 0 < c then NInf else PInf)"
| "js_times (Fin x) c = Fin (x * c)"

text \<open>\<open>Math.min(v, c)\<close> for a finite constant \<open>c\<close>.\<close>

fun js_min :: "jsnum \<Rightarrow> rat \<Rightarrow> jsnum" where
  "js_min NaN c = NaN"
| "js_min PInf c = Fin c"
| "js_min NInf c = NInf"
| "js_min (Fin x) c = Fin (min x c)"

text \<open>\<open>v > c\<close> and \<open>v < c\<close> for a finite constant \<open>c\<close>.\<close>

fun js_gt :: "jsnum \<Rightarrow> rat \<Rightarrow> bool" where
  "js_gt NaN c = False"
| "js_gt PInf c = True"
| "js_gt NInf c = False"
| "js_gt (Fin x) c = (c < x)"

fun js_lt :: "jsnum \<Rightarrow> rat \<Rightarrow> bool" where
  "js_lt NaN c = False"
| "js_lt PInf c = False"
| "js_lt NInf c = True"
| "js_lt (Fin x) c = (x < c)"

text \<open>An optional number in a boolean context (\<open>a.timeSpent\<close> as a filter predicate).\<close>

fun truthy_num :: "rat option \<Rightarrow> bool" where
  "truthy_num None = False"
| "truthy_num (Some t) = (t \<noteq> 0)"

text \<open>\<open>a.timeSpent || 0\<close>.\<close>

fun or_zero :: "rat option \<Rightarrow> rat" where
  "or_zero None = 0"
| "or_zero (Some t) = (if t \<noteq> 0 then t else 0)"

text \<open>An optional boolean in a boolean context (\<open>isCorrect\<close>, negated as \<open>!a.isCorrect\<close>).\<close>

fun truthy_bool :: "bool option \<Rightarrow> bool" where
  "truthy_bool None = False"
| "truthy_bool (Some b) = b"

text \<open>\<open>xs.slice(-n)\<close>: the last \<open>n\<close> elements, or all of them when there are fewer.\<close>

definition slice_last :: "nat \<Rightarrow> 'a list \<Rightarrow> 'a list" where
  "slice_last n xs = drop (length xs - n) xs"

text \<open>\<open>xs[i]\<close>: \<open>undefined\<close> out of range.\<close>

definition js_index :: "'a list \<Rightarrow> int \<Rightarrow> 'a option" where
  "js_index xs i = (if 0 \<le> i \<and> i < int (length xs) then Some (xs ! nat i) else None)"

section \<open>Data model\<close>

datatype ActivityType = question_answered | time_spent | hint_requested | retry

datatype DifficultyLevel = Easy | Medium | Hard | Expert

record LearningActivity =
  timestamp :: rat
  activityType :: ActivityType
  isCorrect :: "bool option"
  timeSpent :: "rat option"
  difficultyLevel :: "DifficultyLevel option"

record EmotionalState =
  frustrationLevel :: jsnum
  stressLevel :: jsnum
  engagementLevel :: jsnum
  confidenceLevel :: jsnum

datatype MessageType = motivation | break | celebration | guidance

text \<open>
  An encouragement message: its category and the index of the template drawn from the
  category's pool of five (the icon is presentation only).
\<close>

record EncouragementMessage =
  msgType :: MessageType
  msgIndex :: int

text \<open>
  Modelled from the spec: the declarations of \<open>Result\<close> and its question results
  (module \<open>../types\<close>) are not among the sources; the fields are the ones the component
  reads, the spec's previous-assessment summary.
\<close>

record QuestionResult =
  qrIsCorrect :: bool

record Result =
  questionResults :: "QuestionResult list"
  percentage :: rat
  timeTaken :: rat

section \<open>Seeding\<close>

definition getInitialEmotionalState :: "Result option \<Rightarrow> EmotionalState" where
  "getInitialEmotionalState lastResult =
     (case lastResult of
        None \<Rightarrow>
          \<lparr>frustrationLevel = Fin 0, stressLevel = Fin 0,
           engagementLevel = Fin 100, confidenceLevel = Fin 70\<rparr>
      | Some r \<Rightarrow>
          (let wrongCount = length (filter (\<lambda>qr. \<not> qrIsCorrect qr) (questionResults r));
               totalQuestions = length (questionResults r);
               wrongPercentage =
                 js_times (js_div (of_nat wrongCount) (of_nat totalQuestions)) 100;
               score = percentage r;
               frustration = js_min (js_times wrongPercentage (8 / 10)) 80;
               stress =
                 (if 45 < timeTaken r then min (50 + (timeTaken r - 45)) 70 else 30);
               engagement = max 40 (min 100 (score + 20));
               confidence = max 20 (min 95 score)
           in \<lparr>frustrationLevel = frustration, stressLevel = Fin stress,
               engagementLevel = Fin engagement, confidenceLevel = Fin confidence\<rparr>))"

section \<open>Scoring engine\<close>

definition analyzeFrustration :: "LearningActivity list \<Rightarrow> rat" where
  "analyzeFrustration activities =
     (if length activities = 0 then 0
      else
        let recentActivities = slice_last 10 activities;
            frustrationScore = 0;
            wrongAnswers =
              length (filter (\<lambda>a. activityType a = question_answered
                                   \<and> \<not> truthy_bool (isCorrect a)) recentActivities);
            frustrationScore = frustrationScore + of_nat wrongAnswers * 15;
            avgTimeSpent =
              js_div
                (foldl (\<lambda>acc a. acc + or_zero (timeSpent a)) 0
                   (filter (\<lambda>a. truthy_num (timeSpent a)) recentActivities))
                (of_nat (length recentActivities));
            frustrationScore =
              (if js_gt avgTimeSpent 120 then frustrationScore + 20 else frustrationScore);
            retries = length (filter (\<lambda>a. activityType a = retry) recentActivities);
            frustrationScore = frustrationScore + of_nat retries * 10
        in min frustrationScore 100)"

text \<open>
  \<open>calculateStress\<close> reads the clock (\<open>Date.now()\<close>, milliseconds) and the session's start
  time; both are parameters here.
\<close>

definition calculateStress :: "rat \<Rightarrow> rat \<Rightarrow> LearningActivity list \<Rightarrow> rat" where
  "calculateStress now sessionStartTime activities =
     (let sessionDuration = (now - sessionStartTime) / 1000 / 60;
          stressScore = 0;
          stressScore = (if 45 < sessionDuration then stressScore + 30 else stressScore);
          stressScore = (if 90 < sessionDuration then stressScore + 40 else stressScore);
          recentHardQuestions =
            length (filter (\<lambda>a. difficultyLevel a = Some Hard \<or> difficultyLevel a = Some Expert)
                      (slice_last 5 activities));
          stressScore = stressScore + of_nat recentHardQuestions * 10;
          recentTimes = map (\<lambda>a. or_zero (timeSpent a)) (slice_last 5 activities);
          avgTime = js_div (foldl (\<lambda>a b. a + b) 0 recentTimes) (of_nat (length recentTimes));
          stressScore =
            (if js_lt avgTime 30 \<and> 3 < length recentTimes then stressScore + 20
             else stressScore)
      in min stressScore 100)"

definition calculateEngagement :: "rat \<Rightarrow> LearningActivity list \<Rightarrow> rat" where
  "calculateEngagement now activities =
     (if length activities = 0 then 100
      else
        let recentActivities = slice_last 10 activities;
            engagementScore = 100;
            lastActivity = js_index recentActivities (int (length recentActivities) - 1);
            engagementScore =
              (case lastActivity of
                 None \<Rightarrow> engagementScore
               | Some la \<Rightarrow>
                   if 180000 < now - timestamp la then engagementScore - 40
                   else engagementScore);
            hints = length (filter (\<lambda>a. activityType a = hint_requested) recentActivities);
            engagementScore = engagementScore - of_nat hints * 8
        in max engagementScore 0)"

section \<open>Policy engine\<close>

text \<open>
  \<open>adjustDifficulty\<close> stores one of three string literals in the component's state; the
  value it stores is returned here.
\<close>

definition adjustDifficulty :: "rat \<Rightarrow> rat \<Rightarrow> rat \<Rightarrow> DifficultyLevel" where
  "adjustDifficulty frustration stress confidence =
     (if 70 < frustration \<or> 80 < stress then Easy
      else if 50 < frustration \<or> 60 < stress then Medium
      else if 80 < confidence \<and> frustration < 30 then Hard
      else Medium)"

section \<open>Component state and its transitions\<close>

text \<open>
  The component's state hooks. A click on one of the activity buttons runs the handler
  \<open>simulateActivity\<close> on the state of the current render; the state setters it calls take
  effect together, and then the effect that depends on the activity log runs on the new
  state. State is passed explicitly: each function returns the state it leaves.
\<close>

record Session =
  emotionalState :: EmotionalState
  activityLog :: "LearningActivity list"
  currentMessage :: "EncouragementMessage option"
  showBreakSuggestion :: bool
  suggestedDifficulty :: DifficultyLevel
  sessionStartTime :: rat
  consecutiveWrong :: nat

text \<open>
  What a click reads from outside the state: the clock (\<open>Date.now()\<close>, once in the handler
  and once in each of the two scoring functions that use it) and the values drawn from
  \<open>Math.random()\<close>, in the order the code draws them.
\<close>

record Env =
  clockHandler :: rat
  randTimeSpent :: rat
  randDifficulty :: rat
  randCelebrate :: rat
  randHandlerMessage :: rat
  clockStress :: rat
  clockEngagement :: rat
  randPolicyMessage :: rat

text \<open>The values of the state hooks at the first render.\<close>

definition initialSession :: "Result option \<Rightarrow> rat \<Rightarrow> Session" where
  "initialSession lastResult start =
     \<lparr>emotionalState = getInitialEmotionalState lastResult,
      activityLog = [],
      currentMessage = None,
      showBreakSuggestion = False,
      suggestedDifficulty = Medium,
      sessionStartTime = start,
      consecutiveWrong = 0\<rparr>"

text \<open>
  \<open>generateEncouragementMessage\<close>: every category has a pool of five templates; the one
  at index \<open>floor (random * 5)\<close> becomes the current message.
\<close>

definition generateEncouragementMessage :: "rat \<Rightarrow> MessageType \<Rightarrow> Session \<Rightarrow> Session" where
  "generateEncouragementMessage random type st =
     st\<lparr>currentMessage := Some \<lparr>msgType = type, msgIndex = \<lfloor>random * 5\<rfloor>\<rparr>\<rparr>"

text \<open>The effect that runs whenever the activity log has changed (and on mount).\<close>

definition updateEffect :: "Env \<Rightarrow> Session \<Rightarrow> Session" where
  "updateEffect env st =
     (let frustration = analyzeFrustration (activityLog st);
          stress = calculateStress (clockStress env) (sessionStartTime st) (activityLog st);
          engagement = calculateEngagement (clockEngagement env) (activityLog st);
          confidence = max 0 (100 - (frustration + stress) / 2);
          st = st\<lparr>emotionalState :=
                   \<lparr>frustrationLevel = Fin frustration, stressLevel = Fin stress,
                    engagementLevel = Fin engagement, confidenceLevel = Fin confidence\<rparr>\<rparr>;
          st =
            (if 60 < frustration \<or> 70 < stress then
               generateEncouragementMessage (randPolicyMessage env) break
                 (st\<lparr>showBreakSuggestion := True\<rparr>)
             else if 40 < frustration then
               generateEncouragementMessage (randPolicyMessage env) motivation st
             else if engagement < 50 then
               generateEncouragementMessage (randPolicyMessage env) guidance st
             else st)
      in st\<lparr>suggestedDifficulty := adjustDifficulty frustration stress confidence\<rparr>)"

text \<open>
  The click handler. \<open>consecutiveWrong\<close> in the test \<open>consecutiveWrong >= 2\<close> is the value of
  the render the handler belongs to, the count before this answer.
\<close>

definition simulateActivity ::
  "Env \<Rightarrow> ActivityType \<Rightarrow> bool option \<Rightarrow> Session \<Rightarrow> Session" where
  "simulateActivity env kind correct st =
     (let newActivity =
            \<lparr>timestamp = clockHandler env,
             activityType = kind,
             isCorrect = correct,
             timeSpent = Some (of_int \<lfloor>randTimeSpent env * 180\<rfloor> + 30),
             difficultyLevel =
               js_index [Easy, Medium, Hard, Expert] \<lfloor>randDifficulty env * 4\<rfloor>\<rparr>;
          st1 = st\<lparr>activityLog := activityLog st @ [newActivity]\<rparr>
      in if kind = question_answered then
           (if truthy_bool correct then
              (let st2 = st1\<lparr>consecutiveWrong := 0\<rparr>
               in if 7 / 10 < randCelebrate env then
                    generateEncouragementMessage (randHandlerMessage env) celebration st2
                  else st2)
            else
              (let st2 = st1\<lparr>consecutiveWrong := consecutiveWrong st + 1\<rparr>
               in if 2 \<le> consecutiveWrong st then
                    generateEncouragementMessage (randHandlerMessage env) motivation st2
                  else st2))
         else st1)"

text \<open>One click: the handler, then the effect on the changed log.\<close>

definition click :: "Env \<times> ActivityType \<times> bool option \<Rightarrow> Session \<Rightarrow> Session" where
  "click ev st =
     (case ev of (env, kind, correct) \<Rightarrow> updateEffect env (simulateActivity env kind correct st))"

fun clicks :: "(Env \<times> ActivityType \<times> bool option) list \<Rightarrow> Session \<Rightarrow> Session" where
  "clicks [] st = st"
| "clicks (ev # evs) st = clicks evs (click ev st)"

section \<open>Notions of the specification\<close>

text \<open>The rolling window: the most recent \<open>k\<close> entries of the log, oldest first.\<close>

definition window :: "nat \<Rightarrow> 'a list \<Rightarrow> 'a list" where
  "window k xs = rev (take k (rev xs))"

text \<open>The number of entries of a list that satisfy a predicate, as a number.\<close>

definition count_where :: "('a \<Rightarrow> bool) \<Rightarrow> 'a list \<Rightarrow> rat" where
  "count_where P xs = of_nat (length (filter P xs))"

text \<open>
  The frustration score in the specification's words: the average time is taken over
  the window entries that have \<open>timeSpent\<close> defined, and over those only.
\<close>

definition frustration_spec :: "LearningActivity list \<Rightarrow> rat" where
  "frustration_spec activities =
     (let w = window 10 activities;
          times = List.map_filter timeSpent w
      in min 100
           (15 * count_where (\<lambda>a. activityType a = question_answered \<and> isCorrect a = Some False) w
            + (if times \<noteq> [] \<and> 120 < sum_list times / of_nat (length times) then 20 else 0)
            + 10 * count_where (\<lambda>a. activityType a = retry) w))"

text \<open>A score within \<open>[0, 100]\<close>, and a score that is a whole number.\<close>

fun in_range :: "jsnum \<Rightarrow> bool" where
  "in_range (Fin x) = (0 \<le> x \<and> x \<le> 100)"
| "in_range NaN = False"
| "in_range PInf = False"
| "in_range NInf = False"

fun is_integer :: "jsnum \<Rightarrow> bool" where
  "is_integer (Fin x) = (of_int \<lfloor>x\<rfloor> = x)"
| "is_integer NaN = False"
| "is_integer PInf = False"
| "is_integer NInf = False"

text \<open>
  The confidence of a snapshot is the one its frustration and stress determine.
\<close>

definition confidence_consistent :: "EmotionalState \<Rightarrow> bool" where
  "confidence_consistent es =
     (case (frustrationLevel es, stressLevel es, confidenceLevel es) of
        (Fin f, Fin s, Fin c) \<Rightarrow> c = max 0 (100 - (f + s) / 2)
      | _ \<Rightarrow> False)"

text \<open>
  The category of the state-driven message in the specification's words: break, else
  motivation, else guidance, else none.
\<close>

definition policy_category :: "rat \<Rightarrow> rat \<Rightarrow> rat \<Rightarrow> MessageType option" where
  "policy_category frustration stress engagement =
     (if 60 < frustration \<or> 70 < stress then Some break
      else if 40 < frustration then Some motivation
      else if engagement < 50 then Some guidance
      else None)"

section \<open>Sample inputs\<close>

text \<open>
  A click at the very start of the session whose random draws are all zero: the new
  activity takes 30 seconds and is of difficulty Easy.
\<close>

definition quietEnv :: Env where
  "quietEnv =
     \<lparr>clockHandler = 0, randTimeSpent = 0, randDifficulty = 0, randCelebrate = 0,
      randHandlerMessage = 0, clockStress = 0, clockEngagement = 0,
      randPolicyMessage = 0\<rparr>"

text \<open>A wrong answer that took 165 seconds on an Easy question.\<close>

definition slowWrongAnswer :: LearningActivity where
  "slowWrongAnswer =
     \<lparr>timestamp = 0, activityType = question_answered, isCorrect = Some False,
      timeSpent = Some 165, difficultyLevel = Some Easy\<rparr>"

section \<open>Properties of the helpers\<close>

lemma slice_last_eq_window: "slice_last n xs = window n xs"
  by (simp add: slice_last_def window_def rev_take)

lemma foldl_plus_sum_list:
  "foldl (\<lambda>acc a. acc + f a) s xs = s + sum_list (map f xs)"
  by (induction xs arbitrary: s) (simp_all add: add.assoc)

lemma foldl_add_sum_list: "foldl (\<lambda>a b. a + b) (s::rat) ts = s + sum_list ts"
  by (induction ts arbitrary: s) (simp_all add: add.assoc)

lemma window_Nil_iff: "window k xs = [] \<longleftrightarrow> k = 0 \<or> xs = []"
  by (simp add: window_def)

lemma length_window: "length (window k xs) = min k (length xs)"
  by (simp add: window_def min.commute)

lemma last_window: "xs \<noteq> [] \<Longrightarrow> 0 < k \<Longrightarrow> last (window k xs) = last xs"
  by (simp add: window_def last_rev hd_rev)

lemma js_index_last:
  "xs \<noteq> [] \<Longrightarrow> js_index xs (int (length xs) - 1) = Some (last xs)"
  by (simp add: js_index_def last_conv_nth nat_diff_distrib')

lemma or_zero_eq: "or_zero t = (case t of None \<Rightarrow> 0 | Some x \<Rightarrow> x)"
  by (cases t) simp_all

lemma floor_rat_numeral_divide:
  "\<lfloor>numeral a / numeral b :: rat\<rfloor> = numeral a div numeral b"
  by (metis floor_divide_of_int_eq of_int_numeral)

lemma sum_filter_truthy:
  "sum_list (map (\<lambda>a. or_zero (timeSpent a)) (filter (\<lambda>a. truthy_num (timeSpent a)) w)) =
   sum_list (map (\<lambda>a. or_zero (timeSpent a)) w)"
proof (induction w)
  case Nil
  then show ?case by simp
next
  case (Cons a w)
  then show ?case by (cases "timeSpent a") simp_all
qed

lemma map_filter_all_defined:
  "\<forall>a\<in>set w. timeSpent a \<noteq> None \<Longrightarrow>
   List.map_filter timeSpent w = map (\<lambda>a. or_zero (timeSpent a)) w"
  by (induction w) (auto simp add: List.map_filter_simps)

section \<open>The scores are whole numbers between 0 and 100\<close>

lemma analyzeFrustration_Ints: "analyzeFrustration xs \<in> \<int>"
  by (simp add: analyzeFrustration_def Let_def min_def)

lemma analyzeFrustration_bounds: "0 \<le> analyzeFrustration xs \<and> analyzeFrustration xs \<le> 100"
  by (simp add: analyzeFrustration_def Let_def)

lemma calculateStress_Ints: "calculateStress now start xs \<in> \<int>"
  by (simp add: calculateStress_def Let_def min_def)

lemma calculateStress_bounds:
  "0 \<le> calculateStress now start xs \<and> calculateStress now start xs \<le> 100"
  by (simp add: calculateStress_def Let_def)

lemma calculateEngagement_Ints: "calculateEngagement now xs \<in> \<int>"
  by (simp add: calculateEngagement_def Let_def max_def split: option.splits)

lemma calculateEngagement_bounds:
  "0 \<le> calculateEngagement now xs \<and> calculateEngagement now xs \<le> 100"
  by (simp add: calculateEngagement_def Let_def split: option.splits)

lemma confidence_twice_Ints:
  fixes f s :: rat
  assumes "f \<in> \<int>" "s \<in> \<int>"
  shows "max 0 (100 - (f + s) / 2) * 2 \<in> \<int>"
proof (cases "0 \<le> 100 - (f + s) / 2")
  case True
  have "(100 - (f + s) / 2) * 2 = 200 - (f + s)" by (simp add: algebra_simps)
  moreover have "200 - (f + s) \<in> \<int>" using assms by simp
  moreover have "max 0 (100 - (f + s) / 2) = 100 - (f + s) / 2"
    using True by (simp only: max_absorb2)
  ultimately show ?thesis by (simp only:)
next
  case False
  then have "max 0 (100 - (f + s) / 2) = 0" by (simp only: max_def if_False)
  then show ?thesis by simp
qed

section \<open>What a click and the effect leave in the state\<close>

lemma clicks_snoc: "clicks (evs @ [ev]) st = click ev (clicks evs st)"
  by (induction evs arbitrary: st) simp_all

lemma emotionalState_updateEffect:
  "emotionalState (updateEffect env st) =
     \<lparr>frustrationLevel = Fin (analyzeFrustration (activityLog st)),
      stressLevel = Fin (calculateStress (clockStress env) (sessionStartTime st) (activityLog st)),
      engagementLevel = Fin (calculateEngagement (clockEngagement env) (activityLog st)),
      confidenceLevel =
        Fin (max 0 (100 - (analyzeFrustration (activityLog st)
               + calculateStress (clockStress env) (sessionStartTime st) (activityLog st)) / 2))\<rparr>"
  by (simp add: updateEffect_def Let_def generateEncouragementMessage_def)

lemma currentMessage_updateEffect:
  "currentMessage (updateEffect env st) =
     (case policy_category (analyzeFrustration (activityLog st))
             (calculateStress (clockStress env) (sessionStartTime st) (activityLog st))
             (calculateEngagement (clockEngagement env) (activityLog st)) of
        None \<Rightarrow> currentMessage st
      | Some c \<Rightarrow> Some \<lparr>msgType = c, msgIndex = \<lfloor>randPolicyMessage env * 5\<rfloor>\<rparr>)"
  by (simp add: updateEffect_def Let_def generateEncouragementMessage_def policy_category_def)

lemma showBreakSuggestion_updateEffect:
  "showBreakSuggestion (updateEffect env st) =
     (60 < analyzeFrustration (activityLog st)
      \<or> 70 < calculateStress (clockStress env) (sessionStartTime st) (activityLog st)
      \<or> showBreakSuggestion st)"
  by (simp add: updateEffect_def Let_def generateEncouragementMessage_def)

lemma suggestedDifficulty_updateEffect:
  "suggestedDifficulty (updateEffect env st) =
     adjustDifficulty (analyzeFrustration (activityLog st))
       (calculateStress (clockStress env) (sessionStartTime st) (activityLog st))
       (max 0 (100 - (analyzeFrustration (activityLog st)
          + calculateStress (clockStress env) (sessionStartTime st) (activityLog st)) / 2))"
  by (simp add: updateEffect_def Let_def generateEncouragementMessage_def)

lemma consecutiveWrong_updateEffect:
  "consecutiveWrong (updateEffect env st) = consecutiveWrong st"
  by (simp add: updateEffect_def Let_def generateEncouragementMessage_def)

lemma consecutiveWrong_simulateActivity:
  "consecutiveWrong (simulateActivity env kind correct st) =
     (if kind = question_answered
      then (if truthy_bool correct then 0 else consecutiveWrong st + 1)
      else consecutiveWrong st)"
  by (simp add: simulateActivity_def Let_def generateEncouragementMessage_def)

lemma currentMessage_simulateActivity:
  "currentMessage (simulateActivity env kind correct st) =
     (if kind = question_answered \<and> truthy_bool correct \<and> 7 / 10 < randCelebrate env
      then Some \<lparr>msgType = celebration, msgIndex = \<lfloor>randHandlerMessage env * 5\<rfloor>\<rparr>
      else if kind = question_answered \<and> \<not> truthy_bool correct \<and> 2 \<le> consecutiveWrong st
      then Some \<lparr>msgType = motivation, msgIndex = \<lfloor>randHandlerMessage env * 5\<rfloor>\<rparr>
      else currentMessage st)"
  by (simp add: simulateActivity_def Let_def generateEncouragementMessage_def)

lemma consecutiveWrong_click:
  "consecutiveWrong (click (env, kind, correct) st) =
     (if kind = question_answered
      then (if truthy_bool correct then 0 else consecutiveWrong st + 1)
      else consecutiveWrong st)"
  by (simp add: click_def consecutiveWrong_updateEffect consecutiveWrong_simulateActivity)

section \<open>Frustration\<close>

text \<open>What the code computes, for every log.\<close>

lemma analyzeFrustration_formula:
  "analyzeFrustration activities =
     min 100
       (15 * count_where (\<lambda>a. activityType a = question_answered \<and> isCorrect a \<noteq> Some True)
               (window 10 activities)
        + (if activities \<noteq> []
              \<and> 120 < sum_list (map (\<lambda>a. case timeSpent a of None \<Rightarrow> 0 | Some t \<Rightarrow> t)
                               (window 10 activities))
                      / of_nat (length (window 10 activities))
           then 20 else 0)
        + 10 * count_where (\<lambda>a. activityType a = retry) (window 10 activities))"
proof (cases "activities = []")
  case True
  then show ?thesis
    by (simp add: analyzeFrustration_def window_def count_where_def)
next
  case False
  let ?w = "window 10 activities"
  have len: "length ?w \<noteq> 0" using False by (simp add: window_Nil_iff)
  have wrong: "(\<lambda>a. activityType a = question_answered \<and> \<not> truthy_bool (isCorrect a))
               = (\<lambda>a. activityType a = question_answered \<and> isCorrect a \<noteq> Some True)"
  proof
    fix a show "(activityType a = question_answered \<and> \<not> truthy_bool (isCorrect a))
               = (activityType a = question_answered \<and> isCorrect a \<noteq> Some True)"
      by (cases "isCorrect a") auto
  qed
  have avg: "js_gt (js_div (foldl (\<lambda>acc a. acc + or_zero (timeSpent a)) 0
                       (filter (\<lambda>a. truthy_num (timeSpent a)) ?w))
                     (of_nat (length ?w))) 120
             \<longleftrightarrow> 120 < sum_list (map (\<lambda>a. case timeSpent a of None \<Rightarrow> 0 | Some t \<Rightarrow> t) ?w)
                      / of_nat (length ?w)"
    using len unfolding foldl_plus_sum_list sum_filter_truthy
    by (simp add: js_div_def or_zero_eq)
  show ?thesis
    using False
    unfolding analyzeFrustration_def Let_def slice_last_eq_window avg wrong count_where_def
    by (simp add: min.commute mult.commute)
qed

text \<open>
  The code and the specification agree on every log whose window activities all
  record their time (and whose answered questions all record whether they were
  correct), as the activities the component creates itself do.
\<close>

lemma analyzeFrustration_eq_spec_when_recorded:
  assumes "\<forall>a\<in>set (window 10 activities).
             timeSpent a \<noteq> None
             \<and> (activityType a = question_answered \<longrightarrow> isCorrect a \<noteq> None)"
  shows "analyzeFrustration activities = frustration_spec activities"
proof -
  let ?w = "window 10 activities"
  have times: "List.map_filter timeSpent ?w = map (\<lambda>a. or_zero (timeSpent a)) ?w"
    using assms by (simp add: map_filter_all_defined)
  have wrong: "filter (\<lambda>a. activityType a = question_answered \<and> isCorrect a \<noteq> Some True) ?w
             = filter (\<lambda>a. activityType a = question_answered \<and> isCorrect a = Some False) ?w"
    using assms by (intro filter_cong) auto
  have orz: "(\<lambda>a. case timeSpent a of None \<Rightarrow> 0 | Some t \<Rightarrow> t) = (\<lambda>a. or_zero (timeSpent a))"
    by (simp add: or_zero_eq)
  show ?thesis
    unfolding analyzeFrustration_formula frustration_spec_def Let_def times count_where_def
      wrong orz
    by (simp add: window_Nil_iff)
qed

text \<open>
  C1. The specification takes the frustration score to be
  \<open>min(100, 15 * wrong answers + (20 if the average timeSpent over the window activities
  that have timeSpent defined exceeds 120) + 10 * retries)\<close> over the last-10 window.
  The code filters the window for the activities that have \<open>timeSpent\<close> and sums over
  them, but then divides by the length of the whole window. On a log of two activities,
  one of 200 seconds and one without \<open>timeSpent\<close>, the specification's average is 200 and
  its score 20; the code's average is 100 and its score 0.
\<close>

theorem C1_average_divides_by_window_length:
  "analyzeFrustration
     [\<lparr>timestamp = 0, activityType = time_spent, isCorrect = None,
       timeSpent = Some 200, difficultyLevel = None\<rparr>,
      \<lparr>timestamp = 0, activityType = time_spent, isCorrect = None,
       timeSpent = None, difficultyLevel = None\<rparr>] = 0
   \<and> frustration_spec
     [\<lparr>timestamp = 0, activityType = time_spent, isCorrect = None,
       timeSpent = Some 200, difficultyLevel = None\<rparr>,
      \<lparr>timestamp = 0, activityType = time_spent, isCorrect = None,
       timeSpent = None, difficultyLevel = None\<rparr>] = 20"
  by (simp add: analyzeFrustration_def frustration_spec_def slice_last_def window_def
      js_div_def count_where_def)

section \<open>Stress\<close>

text \<open>
  C2. For every activity log and elapsed session time, the stress score is
  \<open>min(100, (30 if sessionMinutes > 45) + (40 more if sessionMinutes > 90)
  + 10 * (activities of the last-5 window with difficulty Hard or Expert)
  + (20 if the mean timeSpent over the last-5 window, a missing timeSpent counting as 0,
  is below 30 and the window holds more than 3 activities))\<close>. The clock readings are
  in milliseconds, so the session's minutes are \<open>(now - start) / 60000\<close>.
\<close>

theorem C2_stress_formula:
  "calculateStress now start activities =
     min 100
       ((if 45 < (now - start) / 60000 then 30 else 0)
        + (if 90 < (now - start) / 60000 then 40 else 0)
        + 10 * count_where (\<lambda>a. difficultyLevel a \<in> {Some Hard, Some Expert})
                 (window 5 activities)
        + (if sum_list (map (\<lambda>a. case timeSpent a of None \<Rightarrow> 0 | Some t \<Rightarrow> t)
                          (window 5 activities))
                / of_nat (length (window 5 activities)) < 30
              \<and> 3 < length (window 5 activities)
           then 20 else 0))"
proof -
  let ?w = "window 5 activities"
  have avg: "js_lt (js_div (foldl (\<lambda>a b. a + b) 0 (map (\<lambda>a. or_zero (timeSpent a)) ?w))
                      (of_nat (length (map (\<lambda>a. or_zero (timeSpent a)) ?w)))) 30
             \<and> 3 < length (map (\<lambda>a. or_zero (timeSpent a)) ?w)
         \<longleftrightarrow> sum_list (map (\<lambda>a. case timeSpent a of None \<Rightarrow> 0 | Some t \<Rightarrow> t) ?w)
                / of_nat (length ?w) < 30 \<and> 3 < length ?w"
    by (cases "length ?w = 0") (simp_all add: js_div_def foldl_add_sum_list or_zero_eq)
  have hard: "(\<lambda>a. difficultyLevel a = Some Hard \<or> difficultyLevel a = Some Expert)
              = (\<lambda>a. difficultyLevel a \<in> {Some Hard, Some Expert})"
    by auto
  show ?thesis
    unfolding calculateStress_def Let_def slice_last_eq_window avg hard count_where_def
    by (simp add: min.commute mult.commute)
qed

text \<open>
  A session of 100 minutes whose last four activities were Hard and left no time
  record: 30 + 40 + 40 + 20, capped at 100.
\<close>

theorem C2_stress_formula_witness:
  "calculateStress 6000000 0
     (replicate 4 \<lparr>timestamp = 0, activityType = question_answered, isCorrect = Some True,
                   timeSpent = None, difficultyLevel = Some Hard\<rparr>) = 100"
  using C2_stress_formula [of 6000000 0
     "replicate 4 \<lparr>timestamp = 0, activityType = question_answered, isCorrect = Some True,
                   timeSpent = None, difficultyLevel = Some Hard\<rparr>"]
  by (simp add: window_def count_where_def)

section \<open>Engagement\<close>

text \<open>
  C3. For every activity log, the engagement score is
  \<open>max(0, 100 - (40 if the log is non-empty and the most recent activity is more than
  180 seconds old) - 8 * (hint requests in the last-10 window))\<close>; for the empty log it is
  100; and a log of one activity timestamped 200 seconds before now yields 60 when that
  activity is not a hint request (52 when it is). Timestamps are in milliseconds.
\<close>

theorem C3_engagement_formula:
  "calculateEngagement now activities =
     max 0
       (100
        - (if activities \<noteq> [] \<and> 180 < (now - timestamp (last activities)) / 1000
           then 40 else 0)
        - 8 * count_where (\<lambda>a. activityType a = hint_requested) (window 10 activities))
   \<and> calculateEngagement now [] = 100
   \<and> calculateEngagement now [a\<lparr>timestamp := now - 200 * 1000\<rparr>] =
       (if activityType a = hint_requested then 52 else 60)"
proof -
  have gen: "calculateEngagement now xs =
     max 0
       (100
        - (if xs \<noteq> [] \<and> 180 < (now - timestamp (last xs)) / 1000 then 40 else 0)
        - 8 * count_where (\<lambda>a. activityType a = hint_requested) (window 10 xs))" for xs
  proof (cases "xs = []")
    case True
    then show ?thesis
      by (simp add: calculateEngagement_def window_def count_where_def)
  next
    case False
    then have w: "window 10 xs \<noteq> []" by (simp add: window_Nil_iff)
    have l: "last (window 10 xs) = last xs" using False by (simp add: last_window)
    show ?thesis
      using False w
      by (simp add: calculateEngagement_def Let_def slice_last_eq_window js_index_last l
          count_where_def max.commute mult.commute)
  qed
  show ?thesis
    by (simp add: gen window_def count_where_def)
qed

theorem C3_engagement_formula_witness:
  "calculateEngagement 500000
     [\<lparr>timestamp = 300000, activityType = question_answered, isCorrect = Some True,
       timeSpent = Some 40, difficultyLevel = Some Easy\<rparr>] = 60"
  using C3_engagement_formula [of 500000
     "[\<lparr>timestamp = 300000, activityType = question_answered, isCorrect = Some True,
       timeSpent = Some 40, difficultyLevel = Some Easy\<rparr>]"]
  by (simp add: window_def count_where_def)

section \<open>Seeding from a prior assessment\<close>

text \<open>
  C6. With no prior assessment the initial state is frustration 0, stress 0, engagement
  100, confidence 70. With a prior assessment of at least one question, frustration is
  \<open>min(80, 0.8 * (100 * wrongCount / totalQuestions))\<close>, stress is 30 if \<open>timeTaken\<close> is at
  most 45 and \<open>min(70, 50 + (timeTaken - 45))\<close> otherwise, engagement is the score plus 20
  clamped to \<open>[40, 100]\<close>, and confidence is the score clamped to \<open>[20, 95]\<close>.
\<close>

theorem C6_seed:
  "getInitialEmotionalState None =
     \<lparr>frustrationLevel = Fin 0, stressLevel = Fin 0,
      engagementLevel = Fin 100, confidenceLevel = Fin 70\<rparr>
   \<and> (questionResults r \<noteq> [] \<longrightarrow>
       getInitialEmotionalState (Some r) =
         \<lparr>frustrationLevel =
            Fin (min 80 (8 / 10 *
              (100 * of_nat (length (filter (\<lambda>qr. \<not> qrIsCorrect qr) (questionResults r)))
                 / of_nat (length (questionResults r))))),
          stressLevel =
            Fin (if timeTaken r \<le> 45 then 30 else min 70 (50 + (timeTaken r - 45))),
          engagementLevel = Fin (max 40 (min 100 (percentage r + 20))),
          confidenceLevel = Fin (max 20 (min 95 (percentage r)))\<rparr>)"
  by (auto simp add: getInitialEmotionalState_def js_div_def Let_def min.commute)

text \<open>
  The specification's example: score 90, one wrong answer out of ten, 50 minutes seed
  \<open>(8, 55, 100, 90)\<close>.
\<close>

theorem C6_seed_witness:
  "questionResults
     \<lparr>questionResults = \<lparr>qrIsCorrect = False\<rparr> # replicate 9 \<lparr>qrIsCorrect = True\<rparr>,
      percentage = 90, timeTaken = 50\<rparr> \<noteq> []
   \<and> getInitialEmotionalState
     (Some \<lparr>questionResults = \<lparr>qrIsCorrect = False\<rparr> # replicate 9 \<lparr>qrIsCorrect = True\<rparr>,
            percentage = 90, timeTaken = 50\<rparr>) =
     \<lparr>frustrationLevel = Fin 8, stressLevel = Fin 55,
      engagementLevel = Fin 100, confidenceLevel = Fin 90\<rparr>"
  using C6_seed [of "\<lparr>questionResults = \<lparr>qrIsCorrect = False\<rparr> # replicate 9 \<lparr>qrIsCorrect = True\<rparr>,
            percentage = 90, timeTaken = 50\<rparr>"]
  by simp

text \<open>
  C9. The specification asks that seeding from a prior assessment without questions
  does not divide by zero and yields the frustration seed 0. The code forms
  \<open>wrongCount / totalQuestions\<close> unguarded; with no question results this is \<open>0 / 0\<close>, and
  the frustration seed is \<open>NaN\<close>, outside the documented range 0-100.
\<close>

theorem C9_seed_empty_assessment_is_NaN:
  "frustrationLevel
     (getInitialEmotionalState
        (Some \<lparr>questionResults = [], percentage = 0, timeTaken = 0\<rparr>)) = NaN
   \<and> \<not> in_range (frustrationLevel
     (getInitialEmotionalState
        (Some \<lparr>questionResults = [], percentage = 0, timeTaken = 0\<rparr>)))"
  by (simp add: getInitialEmotionalState_def js_div_def)

section \<open>Difficulty suggestion\<close>

text \<open>
  C7. The suggested difficulty is decided by four rules in order, the first match
  winning: Easy if frustration exceeds 70 or stress exceeds 80; else Medium if
  frustration exceeds 50 or stress exceeds 60; else Hard if confidence exceeds 80 and
  frustration is below 30; else Medium. So the result is Easy exactly under the first
  rule, Hard exactly when the first two rules fail and the third holds, and Medium in
  every other case; it is never Expert, also as the effect stores it in the state; and
  frustration 75, stress 85, confidence 90 yield Easy.
\<close>

theorem C7_adjustDifficulty_rules:
  "(adjustDifficulty f s c = Easy \<longleftrightarrow> 70 < f \<or> 80 < s)
   \<and> (adjustDifficulty f s c = Hard \<longleftrightarrow>
        \<not> (70 < f \<or> 80 < s) \<and> \<not> (50 < f \<or> 60 < s) \<and> 80 < c \<and> f < 30)
   \<and> (adjustDifficulty f s c = Medium \<longleftrightarrow>
        \<not> (70 < f \<or> 80 < s) \<and> (50 < f \<or> 60 < s \<or> \<not> (80 < c \<and> f < 30)))
   \<and> adjustDifficulty f s c \<noteq> Expert
   \<and> suggestedDifficulty (updateEffect env st) \<noteq> Expert
   \<and> adjustDifficulty 75 85 90 = Easy"
  by (simp add: suggestedDifficulty_updateEffect adjustDifficulty_def)

theorem C7_adjustDifficulty_rules_witness:
  "adjustDifficulty 20 10 85 = Hard \<and> adjustDifficulty 75 85 90 = Easy
   \<and> adjustDifficulty 55 10 90 = Medium \<and> adjustDifficulty 35 10 90 = Medium"
  using C7_adjustDifficulty_rules [of 20 10 85] C7_adjustDifficulty_rules [of 55 10 90]
    C7_adjustDifficulty_rules [of 35 10 90]
  by simp

section \<open>Confidence\<close>

text \<open>
  C4. In every snapshot that the effect on the activity log computes, so after every
  click, confidence equals \<open>max(0, 100 - (frustration + stress) / 2)\<close> exactly, without
  any rounding. The seeded snapshot is different: it sets confidence on its own, to 70
  without a prior assessment and to the prior score clamped to \<open>[20, 95]\<close> with one.
\<close>

theorem C4_recomputed_confidence:
  "confidence_consistent (emotionalState (updateEffect env st))
   \<and> confidence_consistent (emotionalState (clicks (evs @ [ev]) st))
   \<and> confidenceLevel (getInitialEmotionalState None) = Fin 70
   \<and> confidenceLevel (getInitialEmotionalState (Some r)) = Fin (max 20 (min 95 (percentage r)))"
proof -
  have eff: "confidence_consistent (emotionalState (updateEffect e s))" for e s
    by (simp add: emotionalState_updateEffect confidence_consistent_def)
  have "confidence_consistent (emotionalState (clicks (evs @ [ev]) st))"
    by (cases ev) (simp add: clicks_snoc click_def eff)
  then show ?thesis
    by (simp add: eff getInitialEmotionalState_def Let_def)
qed

text \<open>After one wrong answer at the start of a session confidence is 92.5.\<close>

theorem C4_recomputed_confidence_witness:
  "confidence_consistent
     (emotionalState (clicks ([] @ [(quietEnv, question_answered, Some False)])
        (initialSession None 0)))
   \<and> confidenceLevel (emotionalState (click (quietEnv, question_answered, Some False)
        (initialSession None 0))) = Fin (185 / 2)"
  using C4_recomputed_confidence [of quietEnv "initialSession None 0" "[]"
      "(quietEnv, question_answered, Some False)"]
  by (simp add: click_def emotionalState_updateEffect simulateActivity_def quietEnv_def
      initialSession_def analyzeFrustration_def calculateStress_def slice_last_def js_div_def
      js_index_def)

text \<open>
  The state of the first render without a prior assessment has frustration 0, stress 0
  and confidence 70, not 100.
\<close>

theorem C4_seed_confidence_counterexample:
  "\<not> confidence_consistent (emotionalState (initialSession None 0))"
  by (simp add: initialSession_def getInitialEmotionalState_def confidence_consistent_def)

section \<open>Range of the scores\<close>

text \<open>
  C5. After every recomputation triggered by an appended activity, all four fields of
  the emotional state lie within \<open>[0, 100]\<close>; frustration, stress and engagement are
  integers, and confidence is an integer or an integer plus one half (twice the
  confidence is an integer), since the code halves the sum of frustration and stress
  without rounding.
\<close>

theorem C5_scores_in_range:
  "in_range (frustrationLevel (emotionalState (clicks (evs @ [ev]) st)))
   \<and> in_range (stressLevel (emotionalState (clicks (evs @ [ev]) st)))
   \<and> in_range (engagementLevel (emotionalState (clicks (evs @ [ev]) st)))
   \<and> in_range (confidenceLevel (emotionalState (clicks (evs @ [ev]) st)))
   \<and> is_integer (frustrationLevel (emotionalState (clicks (evs @ [ev]) st)))
   \<and> is_integer (stressLevel (emotionalState (clicks (evs @ [ev]) st)))
   \<and> is_integer (engagementLevel (emotionalState (clicks (evs @ [ev]) st)))
   \<and> is_integer (js_times (confidenceLevel (emotionalState (clicks (evs @ [ev]) st))) 2)"
proof -
  obtain env kind correct where ev: "ev = (env, kind, correct)"
    by (cases ev) auto
  define s where "s = simulateActivity env kind correct (clicks evs st)"
  have st: "emotionalState (clicks (evs @ [ev]) st) = emotionalState (updateEffect env s)"
    by (simp add: clicks_snoc click_def ev s_def)
  show ?thesis
    unfolding st emotionalState_updateEffect
    using analyzeFrustration_bounds [of "activityLog s"]
      calculateStress_bounds [of "clockStress env" "sessionStartTime s" "activityLog s"]
      calculateEngagement_bounds [of "clockEngagement env" "activityLog s"]
      confidence_twice_Ints [OF analyzeFrustration_Ints calculateStress_Ints,
        of "activityLog s" "clockStress env" "sessionStartTime s" "activityLog s"]
    by (simp add: analyzeFrustration_Ints calculateStress_Ints calculateEngagement_Ints)
qed

theorem C5_scores_in_range_witness:
  "in_range (confidenceLevel (emotionalState
     (clicks ([] @ [(quietEnv, question_answered, Some False)]) (initialSession None 0))))
   \<and> is_integer (js_times (confidenceLevel (emotionalState
     (clicks ([] @ [(quietEnv, question_answered, Some False)]) (initialSession None 0)))) 2)
   \<and> frustrationLevel (emotionalState
     (clicks [(quietEnv, question_answered, Some False)] (initialSession None 0))) = Fin 15"
  using C5_scores_in_range [of "[]" "(quietEnv, question_answered, Some False)"
      "initialSession None 0"]
  by (simp add: click_def emotionalState_updateEffect simulateActivity_def quietEnv_def
      initialSession_def analyzeFrustration_def calculateStress_def slice_last_def js_div_def
      js_index_def)

text \<open>
  One wrong answer at the start of a session: frustration 15, stress 0, confidence
  92.5, which is not an integer.
\<close>

theorem C5_confidence_not_integer_counterexample:
  "\<not> is_integer (confidenceLevel (emotionalState
       (clicks [(quietEnv, question_answered, Some False)] (initialSession None 0))))"
  by (simp add: floor_rat_numeral_divide click_def emotionalState_updateEffect
      simulateActivity_def quietEnv_def initialSession_def analyzeFrustration_def
      calculateStress_def slice_last_def js_div_def js_index_def)

section \<open>Break suggestion and state-driven message\<close>

text \<open>
  C8. On every recomputation the snapshot holds the three scores; the break suggestion
  is raised when frustration exceeds 60 or stress exceeds 70 (and is otherwise left as
  it was); and the current message becomes one of category break in that case, else
  of category motivation if frustration exceeds 40, else of category guidance if
  engagement is below 50, and is otherwise left as it was: no state-driven message
  fires. With frustration 65 the category is break, whatever stress and engagement
  are.
\<close>

theorem C8_policy_message:
  "frustrationLevel (emotionalState (updateEffect env st)) =
     Fin (analyzeFrustration (activityLog st))
   \<and> stressLevel (emotionalState (updateEffect env st)) =
     Fin (calculateStress (clockStress env) (sessionStartTime st) (activityLog st))
   \<and> engagementLevel (emotionalState (updateEffect env st)) =
     Fin (calculateEngagement (clockEngagement env) (activityLog st))
   \<and> showBreakSuggestion (updateEffect env st) =
     (60 < analyzeFrustration (activityLog st)
      \<or> 70 < calculateStress (clockStress env) (sessionStartTime st) (activityLog st)
      \<or> showBreakSuggestion st)
   \<and> currentMessage (updateEffect env st) =
     (case policy_category (analyzeFrustration (activityLog st))
             (calculateStress (clockStress env) (sessionStartTime st) (activityLog st))
             (calculateEngagement (clockEngagement env) (activityLog st)) of
        None \<Rightarrow> currentMessage st
      | Some c \<Rightarrow> Some \<lparr>msgType = c, msgIndex = \<lfloor>randPolicyMessage env * 5\<rfloor>\<rparr>)
   \<and> policy_category 65 s e = Some break"
  by (simp add: emotionalState_updateEffect showBreakSuggestion_updateEffect
      currentMessage_updateEffect policy_category_def)

text \<open>
  Three wrong answers of 165 seconds each: frustration is 45 + 20 = 65, the break
  suggestion is raised and the message is a break message.
\<close>

theorem C8_policy_message_witness:
  "frustrationLevel (emotionalState (updateEffect quietEnv
       ((initialSession None 0)\<lparr>activityLog := replicate 3 slowWrongAnswer\<rparr>))) = Fin 65
   \<and> showBreakSuggestion (updateEffect quietEnv
       ((initialSession None 0)\<lparr>activityLog := replicate 3 slowWrongAnswer\<rparr>))
   \<and> currentMessage (updateEffect quietEnv
       ((initialSession None 0)\<lparr>activityLog := replicate 3 slowWrongAnswer\<rparr>)) =
       Some \<lparr>msgType = break, msgIndex = 0\<rparr>"
  using C8_policy_message [of quietEnv
      "(initialSession None 0)\<lparr>activityLog := replicate 3 slowWrongAnswer\<rparr>"]
  by (simp add: numeral_3_eq_3 quietEnv_def initialSession_def slowWrongAnswer_def
      analyzeFrustration_def calculateStress_def slice_last_def js_div_def
      policy_category_def)

section \<open>Consecutive wrong answers\<close>

text \<open>
  C10. A click on an answer button sets the count of consecutive wrong answers to 0
  when the answer is correct and adds 1 when it is wrong. The handler of a wrong answer
  sets a motivation message exactly when the count before this answer is at least 2,
  and otherwise leaves the message as it was; the handler of a correct answer sets a
  celebration message or leaves the message as it was, so it never forces a motivation
  message. After wrong, wrong, correct, wrong the count is 1, and after the third of
  these it is 0.
\<close>

theorem C10_consecutive_wrong:
  "consecutiveWrong (click (env, question_answered, Some b) st) =
     (if b then 0 else consecutiveWrong st + 1)
   \<and> currentMessage (simulateActivity env question_answered (Some False) st) =
     (if 2 \<le> consecutiveWrong st
      then Some \<lparr>msgType = motivation, msgIndex = \<lfloor>randHandlerMessage env * 5\<rfloor>\<rparr>
      else currentMessage st)
   \<and> currentMessage (simulateActivity env question_answered (Some True) st) =
     (if 7 / 10 < randCelebrate env
      then Some \<lparr>msgType = celebration, msgIndex = \<lfloor>randHandlerMessage env * 5\<rfloor>\<rparr>
      else currentMessage st)
   \<and> consecutiveWrong
       (clicks [(ea, question_answered, Some False), (eb, question_answered, Some False),
                (ec, question_answered, Some True), (ed, question_answered, Some False)] st) = 1
   \<and> consecutiveWrong
       (clicks [(ea, question_answered, Some False), (eb, question_answered, Some False),
                (ec, question_answered, Some True)] st) = 0"
  by (simp add: consecutiveWrong_click currentMessage_simulateActivity)

text \<open>
  From the first render: the count after wrong, wrong, correct, wrong is 1, and the
  handler of the third answer, run on a dismissed message, leaves no message.
\<close>

theorem C10_consecutive_wrong_witness:
  "consecutiveWrong
     (clicks [(quietEnv, question_answered, Some False), (quietEnv, question_answered, Some False),
              (quietEnv, question_answered, Some True), (quietEnv, question_answered, Some False)]
        (initialSession None 0)) = 1
   \<and> currentMessage (simulateActivity quietEnv question_answered (Some True)
        ((clicks [(quietEnv, question_answered, Some False),
                  (quietEnv, question_answered, Some False)] (initialSession None 0))
           \<lparr>currentMessage := None\<rparr>)) = None"
  using C10_consecutive_wrong [of quietEnv True
      "(clicks [(quietEnv, question_answered, Some False),
                  (quietEnv, question_answered, Some False)] (initialSession None 0))
           \<lparr>currentMessage := None\<rparr>" quietEnv quietEnv quietEnv quietEnv]
    C10_consecutive_wrong [of quietEnv True "initialSession None 0"
      quietEnv quietEnv quietEnv quietEnv]
  by (simp add: quietEnv_def)

end
